theory Spec2Isabelle
  imports Complex_Main
begin

section \<open>Data model of the cluster graph (ClusterGraph component in App.tsx, types.ts)\<close>

text \<open>
  Numbers of the source are JavaScript numbers; a finite double is the \<^typ>\<open>real\<close> it
  stands for (NaN and the infinities are left out), and where the source computes with
  doubles the rounding of each operation is written out (\<open>Platform\<close> below). An
  optional field is an \<^typ>\<open>'a option\<close> (\<open>None\<close> for \<open>undefined\<close> and \<open>null\<close>),
  strings are \<^typ>\<open>string\<close>. Field names carry
  a prefix (\<open>c_\<close> for \<open>ClusterNode\<close>, \<open>n_\<close> for \<open>D3Node\<close>, \<open>l_\<close> for
  \<open>D3Link\<close>) so that they do not capture variable names such as \<open>x\<close> and \<open>id\<close>.
\<close>

datatype ClusterType = cluster_t | note_t

text \<open>\<open>interface ClusterNode\<close> of types.ts; \<open>children\<close> makes the type recursive.\<close>

datatype ClusterNode = ClusterNode
  (c_id: string)
  (c_name: string)
  (c_type: ClusterType)
  (c_children: "ClusterNode list option")
  (c_noteId: "string option")
  (c_description: "string option")

text \<open>The \<open>type\<close> field of \<open>D3Node\<close>: \<open>'root' | 'cluster' | 'note'\<close>.\<close>

datatype NodeType = Root | Cluster | Note

record D3Node =
  n_id :: string
  n_name :: string
  n_type :: NodeType
  n_noteId :: "string option"
  n_r :: real
  n_originalClusterId :: "string option"
  n_x :: "real option"
  n_y :: "real option"
  n_vx :: "real option"
  n_vy :: "real option"
  n_fx :: "real option"
  n_fy :: "real option"
  n_index :: "nat option"

text \<open>The component never assigns \<open>index\<close>; the library does.\<close>

text \<open>An end of a link is \<open>string | D3Node\<close>: an id, or the node once the force layout
  has resolved it.\<close>

datatype LinkEnd = ById string | Resolved D3Node

record D3Link =
  l_source :: LinkEnd
  l_target :: LinkEnd

text \<open>
  The force simulation is created by the d3 library; the model keeps what the component
  configures on it: the accessors and constants of the four forces, and the alpha target
  that the drag handlers set. The node and link arrays the simulation works on are the
  arrays of \<open>nodesRef\<close> and \<open>linksRef\<close> themselves, so they are not copied here.
\<close>

record Simulation =
  link_distance :: "D3Link \<Rightarrow> real"
  charge_strength :: real
  collide_radius :: "D3Node \<Rightarrow> real"
  collide_iterations :: nat
  center_x :: real
  center_y :: real
  center_strength :: real
  alpha_target :: real

text \<open>
  A re-parent callback is a function value of the collaborator; the model names it by a
  number and records every call, with its three arguments, in a log.
\<close>

type_synonym callback = nat

datatype Invocation = Invocation
  (callee: callback)
  (arg_noteId: string)
  (arg_newClusterId: string)
  (arg_newClusterName: string)

text \<open>
  The refs of the component (\<open>simulationRef\<close>, \<open>nodesRef\<close>, \<open>linksRef\<close>,
  \<open>hoverTargetRef\<close>, \<open>onReparentRef\<close>) and the effects it has on the outside: the
  elements drawn into the svg (the number of \<open>line\<close> elements, and for every circle
  the node id of its \<open>id\<close> attribute \<open>circle-<id>\<close>), the node id of the circle that
  carries the highlight stroke, and the log of callback invocations.
\<close>

record State =
  simulationRef :: "Simulation option"
  nodesRef :: "D3Node list"
  linksRef :: "D3Link list"
  hoverTargetRef :: "string option"
  onReparentRef :: "callback option"
  svg_lines :: nat
  svg_circles :: "string list"
  highlighted :: "string option"
  invocations :: "Invocation list"

text \<open>The state of a freshly mounted component: \<open>useRef\<close> initial values, empty svg.\<close>

definition initialState :: "callback option \<Rightarrow> State" where
  "initialState onNodeReparent =
     \<lparr>simulationRef = None, nodesRef = [], linksRef = [], hoverTargetRef = None,
      onReparentRef = onNodeReparent, svg_lines = 0, svg_circles = [],
      highlighted = None, invocations = []\<rparr>"

text \<open>The effect \<open>onReparentRef.current = onNodeReparent\<close>, run whenever the parent
  passes a new callback.\<close>

definition setOnReparent :: "callback option \<Rightarrow> State \<Rightarrow> State" where
  "setOnReparent onNodeReparent s = s\<lparr>onReparentRef := onNodeReparent\<rparr>"

section \<open>updateGraphData\<close>

definition rootId :: string where
  "rootId = ''root''"

text \<open>A node literal of the source leaves every field it does not mention undefined.\<close>

definition newNode :: "string \<Rightarrow> string \<Rightarrow> NodeType \<Rightarrow> string option \<Rightarrow> real \<Rightarrow> string option \<Rightarrow> D3Node" where
  "newNode i nm t nid rad orig =
     \<lparr>n_id = i, n_name = nm, n_type = t, n_noteId = nid, n_r = rad,
      n_originalClusterId = orig, n_x = None, n_y = None, n_vx = None, n_vy = None,
      n_fx = None, n_fy = None, n_index = None\<rparr>"

definition rootNode :: D3Node where
  "rootNode = newNode rootId ''Knowledge Base'' Root None 35 None"

definition clusterNode :: "ClusterNode \<Rightarrow> D3Node" where
  "clusterNode c = newNode (c_id c) (c_name c) Cluster None 25 None"

definition noteNode :: "ClusterNode \<Rightarrow> ClusterNode \<Rightarrow> D3Node" where
  "noteNode c n = newNode (c_id n) (c_name n) Note (c_noteId n) 12 (Some (c_id c))"

text \<open>\<open>if (cluster.children)\<close>: an array is truthy also when it is empty.\<close>

definition childrenOf :: "ClusterNode \<Rightarrow> ClusterNode list" where
  "childrenOf c = (case c_children c of None \<Rightarrow> [] | Some ns \<Rightarrow> ns)"

text \<open>What one round of \<open>clusters.forEach\<close> pushes to \<open>newNodes\<close> and to \<open>newLinks\<close>.\<close>

definition clusterNodes :: "ClusterNode \<Rightarrow> D3Node list" where
  "clusterNodes c = clusterNode c # map (noteNode c) (childrenOf c)"

definition clusterLinks :: "ClusterNode \<Rightarrow> D3Link list" where
  "clusterLinks c =
     \<lparr>l_source = ById rootId, l_target = ById (c_id c)\<rparr> #
     map (\<lambda>n. \<lparr>l_source = ById (c_id c), l_target = ById (c_id n)\<rparr>) (childrenOf c)"

definition newNodes :: "ClusterNode list \<Rightarrow> D3Node list" where
  "newNodes clusters = rootNode # concat (map clusterNodes clusters)"

definition newLinks :: "ClusterNode list \<Rightarrow> D3Link list" where
  "newLinks clusters = concat (map clusterLinks clusters)"

text \<open>\<open>new Map(nodesRef.current.map(d => [d.id, d]))\<close>: the entries are set one after
  the other, so a later entry replaces an earlier one with the same key.\<close>

definition existingNodesMap :: "D3Node list \<Rightarrow> (string \<rightharpoonup> D3Node)" where
  "existingNodesMap ds = foldl (\<lambda>m d. m(n_id d \<mapsto> d)) Map.empty ds"

definition mergeNode :: "(string \<rightharpoonup> D3Node) \<Rightarrow> D3Node \<Rightarrow> D3Node" where
  "mergeNode m d =
     (case m (n_id d) of
        Some old \<Rightarrow> d\<lparr>n_x := n_x old, n_y := n_y old, n_vx := n_vx old, n_vy := n_vy old\<rparr>
      | None \<Rightarrow> d)"

definition mergedNodes :: "ClusterNode list \<Rightarrow> D3Node list \<Rightarrow> D3Node list" where
  "mergedNodes clusters prev = map (mergeNode (existingNodesMap prev)) (newNodes clusters)"

definition updateGraphData :: "ClusterNode list \<Rightarrow> State \<Rightarrow> State" where
  "updateGraphData clusters s =
     s\<lparr>nodesRef := mergedNodes clusters (nodesRef s), linksRef := newLinks clusters\<rparr>"

section \<open>The main effect: simulation setup and drawing\<close>

text \<open>The accessor \<open>d => d.source.type === 'root' ? 120 : 60\<close>. The library calls it on
  links whose ends it has resolved; on an id string \<open>.type\<close> is undefined.\<close>

definition linkDistance :: "D3Link \<Rightarrow> real" where
  "linkDistance d =
     (case l_source d of
        Resolved src \<Rightarrow> (if n_type src = Root then 120 else 60)
      | ById _ \<Rightarrow> 60)"

definition collideRadius :: "D3Node \<Rightarrow> real" where
  "collideRadius d = n_r d * 1.5"

definition forceSimulation :: "real \<Rightarrow> real \<Rightarrow> Simulation" where
  "forceSimulation width height =
     \<lparr>link_distance = linkDistance,
      charge_strength = - 400, collide_radius = collideRadius, collide_iterations = 2,
      center_x = width / 2, center_y = height / 2, center_strength = 0.1,
      alpha_target = 0\<rparr>"

text \<open>
  The body of the effect that depends on \<open>clusters\<close>. \<open>svgRef\<close> tells whether the svg
  element is mounted, \<open>containerRef\<close> gives \<open>clientWidth\<close> and \<open>clientHeight\<close> of the
  container when it is mounted; the three tests of the guard are made in the order of the
  source. The early \<open>return\<close> leaves everything as it was. Of the drawing the model keeps
  the elements that are created; colours, labels, the click handler, the zoom behaviour
  and the rendering on each tick are left out, and so is the cleanup that stops the
  simulation. The first positions and velocities that the library gives to the nodes when
  the simulation is created are among the assignments that a tick stands for (below).
\<close>

definition graphEffect :: "ClusterNode list \<Rightarrow> bool \<Rightarrow> (nat \<times> nat) option \<Rightarrow> State \<Rightarrow> State" where
  "graphEffect clusters svgRef containerRef s =
     (if length clusters = 0 then s
      else if \<not> svgRef then s
      else case containerRef of
        None \<Rightarrow> s
      | Some (clientWidth, clientHeight) \<Rightarrow>
          let s1 = updateGraphData clusters s;
              width = real clientWidth;
              height = real clientHeight;
              simulation = forceSimulation width height
          in s1\<lparr>simulationRef := Some simulation,
                 svg_lines := length (linksRef s1),
                 svg_circles := map n_id (nodesRef s1),
                 highlighted := None\<rparr>)"

section \<open>Drag and drop\<close>

text \<open>\<open>v || 0\<close> on an optional number.\<close>

definition orZero :: "real option \<Rightarrow> real" where
  "orZero v = (case v of None \<Rightarrow> 0 | Some a \<Rightarrow> a)"

text \<open>Truthiness of a string: every string but the empty one.\<close>

definition truthy :: "string \<Rightarrow> bool" where
  "truthy str = (str \<noteq> [])"

text \<open>
  The platform under the component, of which the repository holds no code, is a parameter
  of the model. \<open>round_double\<close> takes the exact result of an addition, a subtraction or
  a multiplication of two doubles to the double that the operation returns, and
  \<open>sqrt_double\<close> is \<open>Math.sqrt\<close>. \<open>query_selector sel circles\<close> is the outcome of
  \<open>svg.select(sel)\<close> on an svg whose circles carry the \<open>id\<close> attributes
  \<open>circle-<c>\<close> for the node ids \<open>c\<close> of \<open>circles\<close>: \<open>Invalid\<close> when \<open>sel\<close> is not a
  selector, so that the lookup throws, and otherwise the node id of the circle that is
  selected, if there is one.
\<close>

datatype QueryResult = Invalid | Found "string option"

record Platform =
  round_double :: "real \<Rightarrow> real"
  sqrt_double :: "real \<Rightarrow> real"
  query_selector :: "string \<Rightarrow> string list \<Rightarrow> QueryResult"

text \<open>An exception that leaves a handler. The handler stops where it is thrown; what it
  has assigned before stays assigned.\<close>

datatype Thrown = SyntaxError

text \<open>
  The handlers receive the datum \<open>d\<close> of the dragged element, which is one of the
  objects of \<open>nodesRef.current\<close>; the model names it by its position \<open>i\<close> in that
  array and writes the fields the handler assigns back to that position. \<open>active\<close> is
  \<open>event.active\<close>, \<open>ex\<close> and \<open>ey\<close> are \<open>event.x\<close> and \<open>event.y\<close>. A position
  outside the array names no element: no handler runs. Setting the cursor and the stroke
  of all circles cannot fail; of \<open>alphaTarget(a).restart()\<close> the model keeps the new
  alpha target.
\<close>

definition setAlphaTarget :: "nat \<Rightarrow> real \<Rightarrow> Simulation option \<Rightarrow> Simulation option" where
  "setAlphaTarget active a sim =
     (if active = 0 then map_option (\<lambda>m. m\<lparr>alpha_target := a\<rparr>) sim else sim)"

definition dragStart :: "nat \<Rightarrow> nat \<Rightarrow> State \<Rightarrow> State" where
  "dragStart active i s =
     (if i < length (nodesRef s) then
        let d = nodesRef s ! i
        in s\<lparr>simulationRef := setAlphaTarget active 0.3 (simulationRef s),
              nodesRef := (nodesRef s)[i := d\<lparr>n_fx := n_x d, n_fy := n_y d\<rparr>],
              hoverTargetRef := None\<rparr>
      else s)"

text \<open>One round of the \<open>forEach\<close> over \<open>nodesRef.current\<close> in the drag handler. Every
  arithmetic operation of the source rounds its result; the comparison is exact.\<close>

definition scanStep :: "Platform \<Rightarrow> D3Node \<Rightarrow> string option \<Rightarrow> D3Node \<Rightarrow> string option" where
  "scanStep pf d foundClusterId other =
     (let minDistance = 50 in
      if n_type other = Cluster \<and> Some (n_id other) \<noteq> n_originalClusterId d then
        let dx = round_double pf (orZero (n_x d) - orZero (n_x other));
            dy = round_double pf (orZero (n_y d) - orZero (n_y other));
            dist = sqrt_double pf
                     (round_double pf (round_double pf (dx * dx) + round_double pf (dy * dy)))
        in if dist < round_double pf (minDistance + n_r other)
           then Some (n_id other) else foundClusterId
      else foundClusterId)"

definition findCluster :: "Platform \<Rightarrow> D3Node \<Rightarrow> D3Node list \<Rightarrow> string option" where
  "findCluster pf d ns = foldl (scanStep pf d) None ns"

text \<open>
  The drag handler. When a cluster is found, the strokes of all circles are reset and the
  circle of the cluster is looked up with the selector \<open>#circle-<id>\<close>, the id pasted in
  as it is; when the lookup throws, the handler ends there (\<open>Inl\<close>, with the state it
  leaves behind) and the assignment to \<open>hoverTargetRef.current\<close>, which comes after the
  highlighting, is not reached.
\<close>

definition drag :: "Platform \<Rightarrow> nat \<Rightarrow> real \<Rightarrow> real \<Rightarrow> State \<Rightarrow> (Thrown \<times> State) + State" where
  "drag pf i ex ey s =
     (if i < length (nodesRef s) then
        let d = (nodesRef s ! i)\<lparr>n_fx := Some ex, n_fy := Some ey\<rparr>;
            ns = (nodesRef s)[i := d];
            s1 = s\<lparr>nodesRef := ns\<rparr>
        in if n_type d = Note then
             let foundClusterId = findCluster pf d ns
             in (case foundClusterId of
                   Some c \<Rightarrow>
                     if truthy c then
                       (case query_selector pf (''#circle-'' @ c) (svg_circles s1) of
                          Invalid \<Rightarrow> Inl (SyntaxError, s1\<lparr>highlighted := None\<rparr>)
                        | Found h \<Rightarrow>
                            Inr (s1\<lparr>highlighted := h, hoverTargetRef := foundClusterId\<rparr>))
                     else Inr (s1\<lparr>highlighted := None, hoverTargetRef := foundClusterId\<rparr>)
                 | None \<Rightarrow> Inr (s1\<lparr>highlighted := None, hoverTargetRef := foundClusterId\<rparr>))
           else Inr s1
      else Inr s)"

text \<open>The state a handler leaves behind, whether it returned or threw; the component
  lives on in it.\<close>

definition stateAfter :: "(Thrown \<times> State) + State \<Rightarrow> State" where
  "stateAfter r = (case r of Inl (e, s) \<Rightarrow> s | Inr s \<Rightarrow> s)"

definition dragEnd :: "nat \<Rightarrow> nat \<Rightarrow> State \<Rightarrow> State" where
  "dragEnd active i s =
     (if i < length (nodesRef s) then
        let d = (nodesRef s ! i)\<lparr>n_fx := None, n_fy := None\<rparr>;
            ns = (nodesRef s)[i := d];
            s1 = s\<lparr>simulationRef := setAlphaTarget active 0 (simulationRef s),
                   nodesRef := ns, highlighted := None\<rparr>;
            calls =
              (case (hoverTargetRef s1, onReparentRef s1) of
                 (Some targetId, Some cb) \<Rightarrow>
                   if n_type d = Note \<and> truthy targetId then
                     (case (find (\<lambda>n. n_id n = targetId) ns, n_noteId d) of
                        (Some targetCluster, Some nid) \<Rightarrow>
                          if truthy nid
                          then [Invocation cb nid (n_id targetCluster) (n_name targetCluster)]
                          else []
                      | _ \<Rightarrow> [])
                   else []
               | _ \<Rightarrow> [])
        in s1\<lparr>invocations := invocations s1 @ calls, hoverTargetRef := None\<rparr>
      else s)"

section \<open>The component as a machine driven by events\<close>

text \<open>
  Between two pointer events the force layout, which belongs to the d3 library, moves the
  nodes. All the model says about a tick is that it assigns a position and a velocity to
  every node and leaves the other fields alone; which values it assigns is up to the
  environment (\<open>move\<close>).
\<close>

definition tick :: "(D3Node \<Rightarrow> real \<times> real \<times> real \<times> real) \<Rightarrow> State \<Rightarrow> State" where
  "tick move s =
     s\<lparr>nodesRef :=
         map (\<lambda>d. case move d of (px, py, pvx, pvy) \<Rightarrow>
                d\<lparr>n_x := Some px, n_y := Some py, n_vx := Some pvx, n_vy := Some pvy\<rparr>)
           (nodesRef s)\<rparr>"

datatype Event =
    DragStart nat nat
  | Drag nat real real
  | DragEnd nat nat
  | SetOnReparent "callback option"
  | Tick "D3Node \<Rightarrow> real \<times> real \<times> real \<times> real"

fun step :: "Platform \<Rightarrow> State \<Rightarrow> Event \<Rightarrow> State" where
  "step pf s (DragStart active i) = dragStart active i s"
| "step pf s (Drag i ex ey) = stateAfter (drag pf i ex ey s)"
| "step pf s (DragEnd active i) = dragEnd active i s"
| "step pf s (SetOnReparent cb) = setOnReparent cb s"
| "step pf s (Tick move) = tick move s"

definition run :: "Platform \<Rightarrow> State \<Rightarrow> Event list \<Rightarrow> State" where
  "run pf s evs = foldl (step pf) s evs"

text \<open>What can happen between the pointer-down and the pointer-up of a drag of node
  \<open>i\<close>: moves of that node, ticks, and a new callback from the parent.\<close>

fun duringDrag :: "nat \<Rightarrow> Event \<Rightarrow> bool" where
  "duringDrag i (Drag j ex ey) = (j = i)"
| "duringDrag i (SetOnReparent cb) = True"
| "duringDrag i (Tick move) = True"
| "duringDrag i (DragStart active j) = False"
| "duringDrag i (DragEnd active j) = False"

fun isSetOnReparent :: "Event \<Rightarrow> bool" where
  "isSetOnReparent (SetOnReparent cb) = True"
| "isSetOnReparent (DragStart active i) = False"
| "isSetOnReparent (Drag i ex ey) = False"
| "isSetOnReparent (DragEnd active i) = False"
| "isSetOnReparent (Tick move) = False"

section \<open>The properties in the words of the specification\<close>

text \<open>The position of a node; a coordinate that is not set yet counts as 0.\<close>

definition position :: "D3Node \<Rightarrow> real \<times> real" where
  "position d = (orZero (n_x d), orZero (n_y d))"

definition euclidean :: "real \<times> real \<Rightarrow> real \<times> real \<Rightarrow> real" where
  "euclidean p q = sqrt ((fst p - fst q)\<^sup>2 + (snd p - snd q)\<^sup>2)"

definition baseThreshold :: real where
  "baseThreshold = 50"

text \<open>A group is a candidate for a dragged leaf if it is not the leaf's own group and
  its distance to the leaf is below the threshold plus its radius.\<close>

definition isCandidate :: "D3Node \<Rightarrow> D3Node \<Rightarrow> bool" where
  "isCandidate leaf g =
     (n_type g = Cluster \<and> Some (n_id g) \<noteq> n_originalClusterId leaf \<and>
      euclidean (position leaf) (position g) < baseThreshold + n_r g)"

text \<open>The same with the distance and the threshold as the handler computes them on
  the platform: the groups at which a round of the scan records a target.\<close>

definition computedCandidate :: "Platform \<Rightarrow> D3Node \<Rightarrow> D3Node \<Rightarrow> bool" where
  "computedCandidate pf leaf g = (scanStep pf leaf None g \<noteq> None)"

definition lastCandidate :: "D3Node \<Rightarrow> D3Node list \<Rightarrow> string option" where
  "lastCandidate leaf ns =
     (let candidates = filter (isCandidate leaf) ns
      in if candidates = [] then None else Some (n_id (last candidates)))"

text \<open>A node is unseeded when the engine has not placed it yet.\<close>

definition unseeded :: "D3Node \<Rightarrow> bool" where
  "unseeded d = (n_x d = None \<and> n_y d = None \<and> n_vx d = None \<and> n_vy d = None)"

text \<open>Last write wins: the last node of a generation that carries a given id.\<close>

definition lastWithId :: "string \<Rightarrow> D3Node list \<Rightarrow> D3Node option" where
  "lastWithId k ds =
     (let written = filter (\<lambda>d. n_id d = k) ds
      in if written = [] then None else Some (last written))"

section \<open>Example data\<close>

text \<open>A tree in the manner of the end-to-end scenario: group AI with two leaves and two
  empty groups; a tree whose leaf has no \<open>noteId\<close>; a tree that uses the id \<open>n1\<close>
  twice.\<close>

definition leaf1 :: ClusterNode where
  "leaf1 = ClusterNode ''n1'' ''First note'' note_t None (Some ''n1_leafRef'') None"

definition leaf2 :: ClusterNode where
  "leaf2 = ClusterNode ''n2'' ''Second note'' note_t None (Some ''n2_leafRef'') None"

definition exampleTree :: "ClusterNode list" where
  "exampleTree =
     [ClusterNode ''g1'' ''AI'' cluster_t (Some [leaf1, leaf2]) None None,
      ClusterNode ''g2'' ''Cooking'' cluster_t (Some []) None None,
      ClusterNode ''g3'' ''Travel'' cluster_t None None None]"

definition bareLeaf :: ClusterNode where
  "bareLeaf = ClusterNode ''n1'' ''First note'' note_t None None None"

definition bareTree :: "ClusterNode list" where
  "bareTree =
     [ClusterNode ''g1'' ''AI'' cluster_t (Some [bareLeaf]) None None,
      ClusterNode ''g2'' ''Cooking'' cluster_t None None None]"

definition twiceTree :: "ClusterNode list" where
  "twiceTree =
     [ClusterNode ''g1'' ''AI'' cluster_t (Some [leaf1]) None None,
      ClusterNode ''g2'' ''Cooking'' cluster_t (Some [leaf1]) None None]"

text \<open>A layout for the examples: the leaves between the groups Cooking and Travel, the
  rest far away.\<close>

definition exampleMove :: "D3Node \<Rightarrow> real \<times> real \<times> real \<times> real" where
  "exampleMove d =
     (if n_id d = ''g2'' then (300, 400, 0, 0)
      else if n_id d = ''g3'' then (360, 480, 0, 0)
      else if n_type d = Note then (330, 440, 1, 2)
      else if n_id d = ''g1'' then (0, 200, 0, 0)
      else (0, 0, 0, 0))"

text \<open>
  The platform of the examples. Its arithmetic does not round: the coordinates of the
  examples are integers, every difference, product and sum that the hit test forms on
  them is an integer below \<open>2\<^sup>5\<^sup>3\<close> and every root is that of a perfect square, and
  on such values the operations on doubles are exact. Its lookup rejects the selector
  \<open>#circle-c.1\<close>, as the DOM does (a class name does not begin with a digit), and
  resolves every other selector of the examples to the circle of that id.
\<close>

definition exampleQuery :: "string \<Rightarrow> string list \<Rightarrow> QueryResult" where
  "exampleQuery sel circles =
     (if sel = ''#circle-c.1'' then Invalid
      else Found (find (\<lambda>c. ''#circle-'' @ c = sel) circles))"

definition examplePlatform :: Platform where
  "examplePlatform =
     \<lparr>round_double = (\<lambda>v. v), sqrt_double = sqrt, query_selector = exampleQuery\<rparr>"

definition exampleState :: State where
  "exampleState =
     tick exampleMove (graphEffect exampleTree True (Some (800, 600)) (initialState (Some 1)))"

definition bareState :: State where
  "bareState =
     tick exampleMove (graphEffect bareTree True (Some (800, 600)) (initialState (Some 1)))"

text \<open>The first leaf of each example, picked up and moved once.\<close>

definition exampleDragged :: State where
  "exampleDragged = run examplePlatform exampleState [DragStart 0 2, Drag 2 335 445]"

definition bareDragged :: State where
  "bareDragged = run examplePlatform bareState [DragStart 0 2, Drag 2 335 445]"

text \<open>A tree whose second group has the id \<open>c.1\<close>, laid out with the leaf next to that
  group.\<close>

definition dottedTree :: "ClusterNode list" where
  "dottedTree =
     [ClusterNode ''g1'' ''AI'' cluster_t (Some [leaf1]) None None,
      ClusterNode ''c.1'' ''Cooking'' cluster_t (Some []) None None]"

definition dottedMove :: "D3Node \<Rightarrow> real \<times> real \<times> real \<times> real" where
  "dottedMove d =
     (if n_id d = ''c.1'' then (300, 400, 0, 0)
      else if n_type d = Note then (330, 440, 1, 2)
      else if n_id d = ''g1'' then (0, 200, 0, 0)
      else (0, 0, 0, 0))"

definition dottedState :: State where
  "dottedState =
     tick dottedMove (graphEffect dottedTree True (Some (800, 600)) (initialState (Some 1)))"

section \<open>Lemmas about the merge\<close>

lemma existingNodesMap_snoc:
  "existingNodesMap (ds @ [d]) = (existingNodesMap ds)(n_id d \<mapsto> d)"
  by (simp add: existingNodesMap_def)

lemma lastWithId_snoc:
  "lastWithId k (ds @ [d]) = (if n_id d = k then Some d else lastWithId k ds)"
  by (simp add: lastWithId_def)

lemma existingNodesMap_lastWithId: "existingNodesMap ds k = lastWithId k ds"
proof (induction ds rule: rev_induct)
  case Nil
  show ?case by (simp add: existingNodesMap_def lastWithId_def)
next
  case (snoc d ds)
  then show ?case by (simp add: existingNodesMap_snoc lastWithId_snoc)
qed

lemma n_id_mergeNode [simp]: "n_id (mergeNode m d) = n_id d"
  by (simp add: mergeNode_def split: option.splits)

lemma lastWithId_map:
  assumes "\<And>d. n_id (f d) = n_id d"
  shows "lastWithId k (map f ds) = map_option f (lastWithId k ds)"
proof -
  have "filter (\<lambda>d. n_id d = k) (map f ds) = map f (filter (\<lambda>d. n_id d = k) ds)"
    by (simp add: filter_map o_def assms)
  then show ?thesis
    by (simp add: lastWithId_def last_map)
qed

lemma lastWithId_Some_iff:
  "lastWithId k ds = Some d \<Longrightarrow> d \<in> set ds \<and> n_id d = k"
proof -
  assume a: "lastWithId k ds = Some d"
  then have ne: "filter (\<lambda>d. n_id d = k) ds \<noteq> []" and l: "d = last (filter (\<lambda>d. n_id d = k) ds)"
    by (auto simp: lastWithId_def Let_def split: if_splits)
  from ne have "last (filter (\<lambda>d. n_id d = k) ds) \<in> set (filter (\<lambda>d. n_id d = k) ds)"
    by (rule last_in_set)
  with l show ?thesis by simp
qed

lemma lastWithId_None_iff: "lastWithId k ds = None \<longleftrightarrow> k \<notin> n_id ` set ds"
  by (auto simp: lastWithId_def filter_empty_conv)

lemma newNodes_fresh:
  "d \<in> set (newNodes clusters) \<Longrightarrow> unseeded d \<and> n_fx d = None \<and> n_fy d = None"
  by (auto simp: newNodes_def clusterNodes_def rootNode_def clusterNode_def noteNode_def
      newNode_def unseeded_def)

lemma mergeNode_twice:
  assumes "unseeded d" "unseeded d'" "n_id d' = n_id d"
  shows "d\<lparr>n_x := n_x (mergeNode m d'), n_y := n_y (mergeNode m d'),
           n_vx := n_vx (mergeNode m d'), n_vy := n_vy (mergeNode m d')\<rparr> = mergeNode m d"
  using assms by (cases d) (simp add: mergeNode_def unseeded_def split: option.splits)

lemma mergedNodes_idem:
  "mergedNodes clusters (mergedNodes clusters prev) = mergedNodes clusters prev"
proof -
  let ?m0 = "existingNodesMap prev"
  let ?g1 = "map (mergeNode ?m0) (newNodes clusters)"
  have "mergeNode (existingNodesMap ?g1) d = mergeNode ?m0 d" if d: "d \<in> set (newNodes clusters)" for d
  proof -
    have "lastWithId (n_id d) (newNodes clusters) \<noteq> None"
      using d by (simp add: lastWithId_None_iff)
    then obtain d' where d': "lastWithId (n_id d) (newNodes clusters) = Some d'" by blast
    then have in': "d' \<in> set (newNodes clusters)" and id': "n_id d' = n_id d"
      using lastWithId_Some_iff by blast+
    have "existingNodesMap ?g1 (n_id d) = Some (mergeNode ?m0 d')"
      by (simp add: existingNodesMap_lastWithId lastWithId_map d')
    then have "mergeNode (existingNodesMap ?g1) d =
        d\<lparr>n_x := n_x (mergeNode ?m0 d'), n_y := n_y (mergeNode ?m0 d'),
           n_vx := n_vx (mergeNode ?m0 d'), n_vy := n_vy (mergeNode ?m0 d')\<rparr>"
      by (simp add: mergeNode_def)
    also have "\<dots> = mergeNode ?m0 d"
      using newNodes_fresh [OF d] newNodes_fresh [OF in'] id' by (simp add: mergeNode_twice)
    finally show ?thesis .
  qed
  then show ?thesis by (simp add: mergedNodes_def)
qed

section \<open>Lemmas about the drag handlers\<close>

lemma scanStep_computedCandidate:
  "scanStep pf d found other =
     (if computedCandidate pf d other then Some (n_id other) else found)"
  by (simp add: computedCandidate_def scanStep_def Let_def)

lemma foldl_scanStep:
  "foldl (scanStep pf d) found ns =
     (if filter (computedCandidate pf d) ns = [] then found
      else Some (n_id (last (filter (computedCandidate pf d) ns))))"
  by (induction ns rule: rev_induct) (simp_all add: scanStep_computedCandidate)

lemma computedCandidate_pin [simp]:
  "computedCandidate pf (d\<lparr>n_fx := a, n_fy := b\<rparr>) = computedCandidate pf d"
  by (rule ext) (simp add: computedCandidate_def scanStep_def)

lemma computedCandidate_Cluster: "computedCandidate pf d g \<Longrightarrow> n_type g = Cluster"
  by (simp add: computedCandidate_def scanStep_def split: if_splits)

text \<open>On a platform whose arithmetic does not round, the candidates the handler computes
  are the candidates of the specification.\<close>

lemma computedCandidate_exact:
  assumes "round_double pf = (\<lambda>v. v)" and "sqrt_double pf = sqrt"
  shows "computedCandidate pf d g = isCandidate d g"
proof -
  have "round_double pf v = v" and "sqrt_double pf v = sqrt v" for v
    using assms by simp_all
  then show ?thesis
    by (simp add: computedCandidate_def scanStep_def isCandidate_def euclidean_def position_def
        baseThreshold_def power2_eq_square Let_def)
qed

lemma filter_update_outside:
  "i < length xs \<Longrightarrow> \<not> P (xs ! i) \<Longrightarrow> \<not> P y \<Longrightarrow> filter P (xs[i := y]) = filter P xs"
proof (induction xs arbitrary: i)
  case Nil
  then show ?case by simp
next
  case (Cons x xs)
  then show ?case by (cases i) simp_all
qed

lemma findCluster_pinned:
  assumes "i < length ns" and "n_type (ns ! i) = Note"
  shows "findCluster pf ((ns ! i)\<lparr>n_fx := a, n_fy := b\<rparr>) (ns[i := (ns ! i)\<lparr>n_fx := a, n_fy := b\<rparr>]) =
     (if filter (computedCandidate pf (ns ! i)) ns = [] then None
      else Some (n_id (last (filter (computedCandidate pf (ns ! i)) ns))))"
proof -
  let ?d = "ns ! i"
  let ?d' = "?d\<lparr>n_fx := a, n_fy := b\<rparr>"
  have "\<not> computedCandidate pf ?d ?d" "\<not> computedCandidate pf ?d ?d'"
    using assms(2) by (auto dest: computedCandidate_Cluster)
  with assms(1) have "filter (computedCandidate pf ?d) (ns[i := ?d']) =
      filter (computedCandidate pf ?d) ns"
    by (rule filter_update_outside)
  then show ?thesis by (simp add: findCluster_def foldl_scanStep)
qed

text \<open>A pointer-move on a leaf: when the handler returns, the hover target is the last
  candidate it computed, none if there is no candidate; when it throws, the hover target
  is what it was before.\<close>

lemma drag_hover_returned:
  assumes "i < length (nodesRef s)" and "n_type (nodesRef s ! i) = Note"
    and "drag pf i ex ey s = Inr s'"
  shows "hoverTargetRef s' =
     (if filter (computedCandidate pf (nodesRef s ! i)) (nodesRef s) = [] then None
      else Some (n_id (last (filter (computedCandidate pf (nodesRef s ! i)) (nodesRef s)))))"
  using assms findCluster_pinned [OF assms(1) assms(2), where pf = pf and a = "Some ex"
      and b = "Some ey"]
  by (auto simp: drag_def Let_def split: option.splits if_splits QueryResult.splits)

lemma drag_hover_returned_exact:
  assumes "i < length (nodesRef s)" and "n_type (nodesRef s ! i) = Note"
    and "drag pf i ex ey s = Inr s'"
    and "round_double pf = (\<lambda>v. v)" and "sqrt_double pf = sqrt"
  shows "hoverTargetRef s' = lastCandidate (nodesRef s ! i) (nodesRef s)"
proof -
  have "computedCandidate pf (nodesRef s ! i) = isCandidate (nodesRef s ! i)"
    by (rule ext) (rule computedCandidate_exact [OF assms(4) assms(5)])
  with drag_hover_returned [OF assms(1,2,3)] show ?thesis
    by (simp add: lastCandidate_def)
qed

lemma drag_hover_thrown:
  assumes "drag pf i ex ey s = Inl (e, s')"
  shows "hoverTargetRef s' = hoverTargetRef s \<and> invocations s' = invocations s"
  using assms
  by (auto simp: drag_def Let_def split: option.splits if_splits QueryResult.splits)

text \<open>What the events leave alone.\<close>

lemma drag_nodes:
  "nodesRef (stateAfter (drag pf i ex ey s)) =
     (if i < length (nodesRef s)
      then (nodesRef s)[i := (nodesRef s ! i)\<lparr>n_fx := Some ex, n_fy := Some ey\<rparr>]
      else nodesRef s)"
  by (simp add: drag_def stateAfter_def Let_def split: option.splits QueryResult.splits)

lemma drag_slot:
  "onReparentRef (stateAfter (drag pf i ex ey s)) = onReparentRef s \<and>
   invocations (stateAfter (drag pf i ex ey s)) = invocations s"
  by (simp add: drag_def stateAfter_def Let_def split: option.splits QueryResult.splits)

lemma drag_other_kind:
  "i < length (nodesRef s) \<Longrightarrow> n_type (nodesRef s ! i) \<noteq> Note \<Longrightarrow>
   hoverTargetRef (stateAfter (drag pf i ex ey s)) = hoverTargetRef s"
  by (simp add: drag_def stateAfter_def Let_def)

lemma length_step [simp]: "length (nodesRef (step pf s ev)) = length (nodesRef s)"
  by (cases ev) (simp_all add: dragStart_def drag_nodes dragEnd_def setOnReparent_def tick_def Let_def)

lemma n_type_step:
  "i < length (nodesRef s) \<Longrightarrow> n_type (nodesRef (step pf s ev) ! i) = n_type (nodesRef s ! i)"
  by (cases ev)
     (auto simp: dragStart_def drag_nodes dragEnd_def setOnReparent_def tick_def Let_def
        nth_list_update split: prod.splits)

lemma step_other_kind:
  assumes "i < length (nodesRef s)" "n_type (nodesRef s ! i) \<noteq> Note" "duringDrag i ev"
  shows "hoverTargetRef (step pf s ev) = hoverTargetRef s \<and>
    invocations (step pf s ev) = invocations s"
  using assms
  by (cases ev) (simp_all add: drag_other_kind drag_slot setOnReparent_def tick_def)

text \<open>A drag of the root or of a group: after the pointer-down and any events of the
  drag the hover target is what the pointer-down made it, and no call is logged.\<close>

lemma run_other_kind:
  assumes "i < length (nodesRef s)" "n_type (nodesRef s ! i) \<noteq> Note" "list_all (duringDrag i) evs"
  shows "hoverTargetRef (run pf s evs) = hoverTargetRef s \<and>
     invocations (run pf s evs) = invocations s \<and>
     length (nodesRef (run pf s evs)) = length (nodesRef s) \<and>
     n_type (nodesRef (run pf s evs) ! i) = n_type (nodesRef s ! i)"
  using assms
proof (induction evs arbitrary: s)
  case Nil
  then show ?case by (simp add: run_def)
next
  case (Cons ev evs)
  have "i < length (nodesRef (step pf s ev))" "n_type (nodesRef (step pf s ev) ! i) \<noteq> Note"
    using Cons.prems by (simp_all add: n_type_step)
  moreover have "list_all (duringDrag i) evs" using Cons.prems by simp
  ultimately have ih: "hoverTargetRef (run pf (step pf s ev) evs) = hoverTargetRef (step pf s ev) \<and>
      invocations (run pf (step pf s ev) evs) = invocations (step pf s ev) \<and>
      length (nodesRef (run pf (step pf s ev) evs)) = length (nodesRef (step pf s ev)) \<and>
      n_type (nodesRef (run pf (step pf s ev) evs) ! i) = n_type (nodesRef (step pf s ev) ! i)"
    by (rule Cons.IH)
  have "duringDrag i ev" using Cons.prems by simp
  with Cons.prems have "hoverTargetRef (step pf s ev) = hoverTargetRef s \<and>
      invocations (step pf s ev) = invocations s"
    by (intro step_other_kind) simp_all
  with ih show ?case using Cons.prems(1) by (simp add: run_def n_type_step)
qed

lemma dragStart_frame:
  "i < length (nodesRef s) \<Longrightarrow>
   hoverTargetRef (dragStart a i s) = None \<and> invocations (dragStart a i s) = invocations s \<and>
   length (nodesRef (dragStart a i s)) = length (nodesRef s) \<and>
   n_type (nodesRef (dragStart a i s) ! i) = n_type (nodesRef s ! i)"
  by (simp add: dragStart_def Let_def)

lemma dragEnd_other_kind:
  "i < length (nodesRef s) \<Longrightarrow> n_type (nodesRef s ! i) \<noteq> Note \<Longrightarrow>
   hoverTargetRef (dragEnd a i s) = None \<and> invocations (dragEnd a i s) = invocations s"
  by (simp add: dragEnd_def Let_def split: option.splits)

lemma dragEnd_hover_reset:
  "i < length (nodesRef s) \<Longrightarrow> hoverTargetRef (dragEnd a i s) = None"
  by (simp add: dragEnd_def Let_def)

lemma find_update_same_id:
  assumes "find (\<lambda>n. n_id n = t) xs = Some g" "i < length xs"
    "n_id y = n_id (xs ! i)" "n_name y = n_name (xs ! i)"
  shows "\<exists>g'. find (\<lambda>n. n_id n = t) (xs[i := y]) = Some g' \<and> n_id g' = t \<and> n_name g' = n_name g"
proof -
  have "\<exists>g'. find (\<lambda>n. n_id n = t) (xs[i := y]) = Some g' \<and> n_name g' = n_name g"
    using assms
  proof (induction xs arbitrary: i)
    case Nil
    then show ?case by simp
  next
    case (Cons x xs)
    then show ?case by (cases i) (auto split: if_splits)
  qed
  then obtain g' where g': "find (\<lambda>n. n_id n = t) (xs[i := y]) = Some g'" "n_name g' = n_name g"
    by blast
  from g'(1) have "n_id g' = t" by (auto simp: find_Some_iff)
  with g' show ?thesis by blast
qed

lemma dragEnd_calls:
  assumes "i < length (nodesRef s)"
  shows "\<exists>calls. invocations (dragEnd a i s) = invocations s @ calls \<and> length calls \<le> 1 \<and>
     (\<forall>c \<in> set calls. Some (callee c) = onReparentRef s)"
proof -
  have "invocations (dragEnd a i s) = invocations s @ [] \<or>
    (\<exists>cb nid tid nm. onReparentRef s = Some cb \<and>
       invocations (dragEnd a i s) = invocations s @ [Invocation cb nid tid nm])"
    using assms by (auto simp: dragEnd_def Let_def split: option.splits)
  then show ?thesis
  proof
    assume "invocations (dragEnd a i s) = invocations s @ []"
    then show ?thesis by (intro exI [of _ "[]"]) simp
  next
    assume "\<exists>cb nid tid nm. onReparentRef s = Some cb \<and>
       invocations (dragEnd a i s) = invocations s @ [Invocation cb nid tid nm]"
    then obtain cb nid tid nm where "onReparentRef s = Some cb"
      "invocations (dragEnd a i s) = invocations s @ [Invocation cb nid tid nm]" by blast
    then show ?thesis by (intro exI [of _ "[Invocation cb nid tid nm]"]) simp
  qed
qed

lemma dragEnd_invokes:
  assumes "i < length (nodesRef s)" "n_type (nodesRef s ! i) = Note"
    "hoverTargetRef s = Some t" "t \<noteq> []" "find (\<lambda>n. n_id n = t) (nodesRef s) = Some g"
    "onReparentRef s = Some cb" "n_noteId (nodesRef s ! i) = Some nid" "nid \<noteq> []"
  shows "invocations (dragEnd a i s) = invocations s @ [Invocation cb nid t (n_name g)]"
proof -
  let ?d = "(nodesRef s ! i)\<lparr>n_fx := None, n_fy := None\<rparr>"
  obtain g' where "find (\<lambda>n. n_id n = t) ((nodesRef s)[i := ?d]) = Some g'"
    "n_id g' = t" "n_name g' = n_name g"
    using find_update_same_id [OF assms(5) assms(1), of ?d] by auto
  then show ?thesis
    using assms by (simp add: dragEnd_def Let_def truthy_def)
qed

lemma dragEnd_silent:
  assumes "i < length (nodesRef s)"
    "hoverTargetRef s = None \<or> onReparentRef s = None \<or> n_noteId (nodesRef s ! i) = None
      \<or> n_noteId (nodesRef s ! i) = Some []"
  shows "invocations (dragEnd a i s) = invocations s"
  using assms by (auto simp: dragEnd_def Let_def truthy_def split: option.splits)

lemma onReparentRef_step:
  "\<not> isSetOnReparent ev \<Longrightarrow> onReparentRef (step pf s ev) = onReparentRef s"
  by (cases ev) (simp_all add: dragStart_def drag_slot dragEnd_def tick_def Let_def)

lemma onReparentRef_run:
  "\<not> list_ex isSetOnReparent evs \<Longrightarrow> onReparentRef (run pf s evs) = onReparentRef s"
  by (induction evs arbitrary: s) (simp_all add: run_def onReparentRef_step)

lemma run_append: "run pf s (evs @ evs') = run pf (run pf s evs) evs'"
  by (simp add: run_def)

lemma run_Cons: "run pf s (ev # evs) = run pf (step pf s ev) evs"
  by (simp add: run_def)

section \<open>Further lemmas: merge, root node, main effect\<close>

lemma dragEnd_calls_any:
  "\<exists>calls. invocations (dragEnd a i s) = invocations s @ calls \<and> length calls \<le> 1 \<and>
     (\<forall>c \<in> set calls. Some (callee c) = onReparentRef s)"
proof (cases "i < length (nodesRef s)")
  case True
  then show ?thesis by (rule dragEnd_calls)
next
  case False
  then have "invocations (dragEnd a i s) = invocations s @ []" by (simp add: dragEnd_def)
  then show ?thesis by (intro exI [of _ "[]"]) simp
qed

lemma filter_same_key:
  "distinct (map f xs) \<Longrightarrow> x \<in> set xs \<Longrightarrow> filter (\<lambda>d. f d = f x) xs = [x]"
proof (induction xs)
  case Nil
  then show ?case by simp
next
  case (Cons y ys)
  show ?case
  proof (cases "y = x")
    case True
    have "f x \<notin> f ` set ys" using Cons.prems(1) True by simp
    then have "filter (\<lambda>d. f d = f x) ys = []"
      unfolding filter_empty_conv by (metis imageI)
    with True show ?thesis by simp
  next
    case False
    with Cons.prems have "x \<in> set ys" "f y \<noteq> f x" by auto
    with Cons show ?thesis by simp
  qed
qed

lemma lastWithId_distinct:
  "distinct (map n_id ds) \<Longrightarrow> d \<in> set ds \<Longrightarrow> lastWithId (n_id d) ds = Some d"
  by (simp add: lastWithId_def filter_same_key)

lemma mergeNode_fields:
  "mergeNode m d =
     d\<lparr>n_x := n_x (mergeNode m d), n_y := n_y (mergeNode m d),
       n_vx := n_vx (mergeNode m d), n_vy := n_vy (mergeNode m d)\<rparr>"
  by (simp add: mergeNode_def split: option.splits)

lemma mergeNode_frame [simp]:
  "n_type (mergeNode m d) = n_type d" "n_noteId (mergeNode m d) = n_noteId d"
  "n_fx (mergeNode m d) = n_fx d" "n_fy (mergeNode m d) = n_fy d"
  "n_name (mergeNode m d) = n_name d"
  by (simp_all add: mergeNode_def split: option.splits)

lemma mergeNode_copied:
  "unseeded d \<Longrightarrow>
   (case m (n_id d) of
      Some old \<Rightarrow> n_x (mergeNode m d) = n_x old \<and> n_y (mergeNode m d) = n_y old \<and>
                  n_vx (mergeNode m d) = n_vx old \<and> n_vy (mergeNode m d) = n_vy old
    | None \<Rightarrow> unseeded (mergeNode m d))"
  by (simp add: mergeNode_def split: option.splits)

lemma merged_copied:
  assumes "n \<in> set (mergedNodes clusters prev)"
  shows "case lastWithId (n_id n) prev of
      Some old \<Rightarrow> n_x n = n_x old \<and> n_y n = n_y old \<and> n_vx n = n_vx old \<and> n_vy n = n_vy old
    | None \<Rightarrow> unseeded n"
proof -
  from assms obtain d where d: "d \<in> set (newNodes clusters)"
    and n: "n = mergeNode (existingNodesMap prev) d"
    by (auto simp: mergedNodes_def)
  have "unseeded d" using newNodes_fresh [OF d] by simp
  from mergeNode_copied [OF this, of "existingNodesMap prev"] show ?thesis
    unfolding n by (simp add: existingNodesMap_lastWithId)
qed

lemma no_Root_in_clusterNodes:
  "filter (\<lambda>n. n_type n = Root) (concat (map clusterNodes clusters)) = []"
  by (auto simp: filter_empty_conv clusterNodes_def clusterNode_def noteNode_def newNode_def)

lemma Root_in_newNodes:
  "d \<in> set (newNodes clusters) \<Longrightarrow> n_type d = Root \<Longrightarrow> d = rootNode"
  by (auto simp: newNodes_def clusterNodes_def clusterNode_def noteNode_def newNode_def)

lemma filter_Root_merged:
  "filter (\<lambda>n. n_type n = Root) (mergedNodes clusters prev) =
     [mergeNode (existingNodesMap prev) rootNode]"
proof -
  have "filter (\<lambda>n. n_type n = Root) (mergedNodes clusters prev) =
      map (mergeNode (existingNodesMap prev)) (filter (\<lambda>n. n_type n = Root) (newNodes clusters))"
    by (simp add: mergedNodes_def filter_map o_def)
  also have "filter (\<lambda>n. n_type n = Root) (newNodes clusters) = [rootNode]"
    using no_Root_in_clusterNodes [of clusters]
    by (simp add: newNodes_def rootNode_def newNode_def)
  finally show ?thesis by simp
qed

lemma Root_merged_noteId:
  assumes "n \<in> set (mergedNodes clusters prev)" "n_type n = Root"
  shows "n_noteId n = None"
proof -
  from assms(1) obtain d where d: "d \<in> set (newNodes clusters)"
    and n: "n = mergeNode (existingNodesMap prev) d"
    by (auto simp: mergedNodes_def)
  with assms(2) have "d = rootNode" by (simp add: Root_in_newNodes)
  then show ?thesis by (simp add: n rootNode_def newNode_def)
qed

lemma graphEffect_runs:
  "clusters \<noteq> [] \<Longrightarrow>
   graphEffect clusters True (Some (w, h)) s =
     (updateGraphData clusters s)
       \<lparr>simulationRef := Some (forceSimulation (real w) (real h)),
        svg_lines := length (newLinks clusters),
        svg_circles := map n_id (mergedNodes clusters (nodesRef s)),
        highlighted := None\<rparr>"
  by (simp add: graphEffect_def Let_def updateGraphData_def)

lemma graphEffect_empty: "graphEffect [] svgRef containerRef s = s"
  by (simp add: graphEffect_def)

section \<open>Evaluating the examples\<close>

text \<open>The hit test without the square root, for evaluation on numerals.\<close>

lemma hit_test:
  "sqrt (dx * dx + dy * dy) < b \<longleftrightarrow> 0 < b \<and> dx * dx + dy * dy < b * b"
proof (cases "0 < b")
  case True
  then have "sqrt (dx * dx + dy * dy) < b \<longleftrightarrow> sqrt (dx * dx + dy * dy) < sqrt (b * b)"
    by simp
  also have "\<dots> \<longleftrightarrow> dx * dx + dy * dy < b * b"
    by (rule real_sqrt_less_iff)
  finally show ?thesis using True by simp
next
  case False
  have "0 \<le> sqrt (dx * dx + dy * dy)" by simp
  with False show ?thesis by linarith
qed

lemmas tree_defs = updateGraphData_def mergedNodes_def newNodes_def newLinks_def
  clusterNodes_def clusterLinks_def clusterNode_def noteNode_def rootNode_def childrenOf_def
  exampleTree_def bareTree_def twiceTree_def leaf1_def leaf2_def bareLeaf_def existingNodesMap_def
  mergeNode_def rootId_def

lemmas effect_defs = tick_def graphEffect_def initialState_def exampleMove_def
  forceSimulation_def Let_def

lemmas drag_defs = run_def dragStart_def drag_def stateAfter_def dragEnd_def setOnReparent_def
  setAlphaTarget_def findCluster_def scanStep_def orZero_def truthy_def hit_test Let_def
  examplePlatform_def exampleQuery_def

lemma exampleState_nodes:
  "nodesRef exampleState =
     [(newNode ''root'' ''Knowledge Base'' Root None 35 None)
        \<lparr>n_x := Some 0, n_y := Some 0, n_vx := Some 0, n_vy := Some 0\<rparr>,
      (newNode ''g1'' ''AI'' Cluster None 25 None)
        \<lparr>n_x := Some 0, n_y := Some 200, n_vx := Some 0, n_vy := Some 0\<rparr>,
      (newNode ''n1'' ''First note'' Note (Some ''n1_leafRef'') 12 (Some ''g1''))
        \<lparr>n_x := Some 330, n_y := Some 440, n_vx := Some 1, n_vy := Some 2\<rparr>,
      (newNode ''n2'' ''Second note'' Note (Some ''n2_leafRef'') 12 (Some ''g1''))
        \<lparr>n_x := Some 330, n_y := Some 440, n_vx := Some 1, n_vy := Some 2\<rparr>,
      (newNode ''g2'' ''Cooking'' Cluster None 25 None)
        \<lparr>n_x := Some 300, n_y := Some 400, n_vx := Some 0, n_vy := Some 0\<rparr>,
      (newNode ''g3'' ''Travel'' Cluster None 25 None)
        \<lparr>n_x := Some 360, n_y := Some 480, n_vx := Some 0, n_vy := Some 0\<rparr>]"
  by (simp add: exampleState_def tree_defs effect_defs newNode_def)

lemma exampleState_refs:
  "hoverTargetRef exampleState = None" "onReparentRef exampleState = Some 1"
  "invocations exampleState = []"
  by (simp_all add: exampleState_def tree_defs effect_defs)

lemma bareState_nodes:
  "nodesRef bareState =
     [(newNode ''root'' ''Knowledge Base'' Root None 35 None)
        \<lparr>n_x := Some 0, n_y := Some 0, n_vx := Some 0, n_vy := Some 0\<rparr>,
      (newNode ''g1'' ''AI'' Cluster None 25 None)
        \<lparr>n_x := Some 0, n_y := Some 200, n_vx := Some 0, n_vy := Some 0\<rparr>,
      (newNode ''n1'' ''First note'' Note None 12 (Some ''g1''))
        \<lparr>n_x := Some 330, n_y := Some 440, n_vx := Some 1, n_vy := Some 2\<rparr>,
      (newNode ''g2'' ''Cooking'' Cluster None 25 None)
        \<lparr>n_x := Some 300, n_y := Some 400, n_vx := Some 0, n_vy := Some 0\<rparr>]"
  by (simp add: bareState_def tree_defs effect_defs newNode_def)

lemma bareState_refs:
  "hoverTargetRef bareState = None" "onReparentRef bareState = Some 1"
  "invocations bareState = []"
  by (simp_all add: bareState_def tree_defs effect_defs)

lemma exampleDragged_nodes:
  "nodesRef exampleDragged =
     (nodesRef exampleState)
       [2 := (nodesRef exampleState ! 2)\<lparr>n_fx := Some 335, n_fy := Some 445\<rparr>]"
  by (simp add: exampleDragged_def exampleState_nodes drag_defs newNode_def)

lemma exampleDragged_refs:
  "hoverTargetRef exampleDragged = Some ''g3''" "onReparentRef exampleDragged = Some 1"
  "invocations exampleDragged = []"
  by (simp_all add: exampleDragged_def exampleState_nodes exampleState_refs drag_defs
      newNode_def)

lemma bareDragged_nodes:
  "nodesRef bareDragged =
     (nodesRef bareState)
       [2 := (nodesRef bareState ! 2)\<lparr>n_fx := Some 335, n_fy := Some 445\<rparr>]"
  by (simp add: bareDragged_def bareState_nodes drag_defs newNode_def)

lemma bareDragged_refs:
  "hoverTargetRef bareDragged = Some ''g2''" "onReparentRef bareDragged = Some 1"
  "invocations bareDragged = []"
  by (simp_all add: bareDragged_def bareState_nodes bareState_refs drag_defs newNode_def)

lemma dottedState_nodes:
  "nodesRef dottedState =
     [(newNode ''root'' ''Knowledge Base'' Root None 35 None)
        \<lparr>n_x := Some 0, n_y := Some 0, n_vx := Some 0, n_vy := Some 0\<rparr>,
      (newNode ''g1'' ''AI'' Cluster None 25 None)
        \<lparr>n_x := Some 0, n_y := Some 200, n_vx := Some 0, n_vy := Some 0\<rparr>,
      (newNode ''n1'' ''First note'' Note (Some ''n1_leafRef'') 12 (Some ''g1''))
        \<lparr>n_x := Some 330, n_y := Some 440, n_vx := Some 1, n_vy := Some 2\<rparr>,
      (newNode ''c.1'' ''Cooking'' Cluster None 25 None)
        \<lparr>n_x := Some 300, n_y := Some 400, n_vx := Some 0, n_vy := Some 0\<rparr>]"
  by (simp add: dottedState_def dottedTree_def dottedMove_def tree_defs effect_defs newNode_def)

lemma dottedState_refs:
  "hoverTargetRef dottedState = None" "onReparentRef dottedState = Some 1"
  "invocations dottedState = []" "svg_circles dottedState = [''root'', ''g1'', ''n1'', ''c.1'']"
  by (simp_all add: dottedState_def dottedTree_def dottedMove_def tree_defs effect_defs
      newNode_def)

lemma exampleTree_rebuilt:
  "nodesRef (updateGraphData exampleTree exampleDragged) = nodesRef exampleState"
  by (simp add: exampleDragged_nodes exampleState_nodes tree_defs newNode_def)

lemma twiceTree_nodes:
  "nodesRef (updateGraphData twiceTree s) =
     map (mergeNode (existingNodesMap (nodesRef s)))
       [newNode ''root'' ''Knowledge Base'' Root None 35 None,
        newNode ''g1'' ''AI'' Cluster None 25 None,
        newNode ''n1'' ''First note'' Note (Some ''n1_leafRef'') 12 (Some ''g1''),
        newNode ''g2'' ''Cooking'' Cluster None 25 None,
        newNode ''n1'' ''First note'' Note (Some ''n1_leafRef'') 12 (Some ''g2'')]"
  by (simp add: updateGraphData_def mergedNodes_def newNodes_def clusterNodes_def clusterNode_def
      noteNode_def rootNode_def childrenOf_def twiceTree_def leaf1_def rootId_def)

section \<open>Pointer-up: the re-parent notification\<close>

text \<open>
  A leaf whose \<open>noteId\<close> is absent is picked up, moved next to the group Cooking, which
  is recorded as hover target, and released while a callback is registered: the guard
  \<open>targetCluster && d.noteId\<close> keeps the handler from calling it.
\<close>

theorem dragEnd_bare_leaf_counterexample:
  "2 < length (nodesRef bareDragged) \<and> n_type (nodesRef bareDragged ! 2) = Note \<and>
   hoverTargetRef bareDragged = Some ''g2'' \<and> onReparentRef bareDragged = Some 1 \<and>
   invocations (dragEnd 0 2 bareDragged) = invocations bareDragged"
  by (simp add: bareDragged_nodes bareDragged_refs bareState_nodes dragEnd_def newNode_def
      truthy_def Let_def)

text \<open>
  C1, as the handler has it. On every pointer-up of a leaf node the hover target is reset
  to none. The callback is not invoked if no hover target was recorded, if no callback is
  registered, or if the leaf carries no \<open>noteId\<close> or an empty one. If a hover target
  with a non-empty id \<open>t\<close> was recorded, a callback \<open>cb\<close> is registered when the pointer
  goes up and the leaf carries a non-empty \<open>noteId\<close>, then \<open>cb\<close> is invoked exactly once,
  with the leaf's \<open>noteId\<close>, the id \<open>t\<close> and the name of the first node \<open>g\<close> of the
  generation that carries the id \<open>t\<close>; where ids are unique this is the target group.
\<close>

theorem dragEnd_reparent:
  assumes "i < length (nodesRef s)" and "n_type (nodesRef s ! i) = Note"
  shows "hoverTargetRef (dragEnd a i s) = None \<and>
    (hoverTargetRef s = None \<or> onReparentRef s = None \<or> n_noteId (nodesRef s ! i) = None \<or>
       n_noteId (nodesRef s ! i) = Some [] \<longrightarrow>
       invocations (dragEnd a i s) = invocations s) \<and>
    (hoverTargetRef s = Some t \<and> t \<noteq> [] \<and> find (\<lambda>n. n_id n = t) (nodesRef s) = Some g \<and>
       onReparentRef s = Some cb \<and> n_noteId (nodesRef s ! i) = Some nid \<and> nid \<noteq> [] \<longrightarrow>
       invocations (dragEnd a i s) = invocations s @ [Invocation cb nid t (n_name g)])"
  using assms dragEnd_hover_reset [of i s a] dragEnd_silent [of i s a]
    dragEnd_invokes [of i s t g cb nid a]
  by blast

theorem dragEnd_reparent_witness:
  "2 < length (nodesRef exampleDragged) \<and> n_type (nodesRef exampleDragged ! 2) = Note \<and>
   hoverTargetRef exampleDragged = Some ''g3'' \<and>
   find (\<lambda>n. n_id n = ''g3'') (nodesRef exampleDragged) = Some (nodesRef exampleDragged ! 5) \<and>
   onReparentRef exampleDragged = Some 1 \<and>
   n_noteId (nodesRef exampleDragged ! 2) = Some ''n1_leafRef'' \<and>
   hoverTargetRef (dragEnd 0 2 exampleDragged) = None \<and>
   invocations (dragEnd 0 2 exampleDragged) = [Invocation 1 ''n1_leafRef'' ''g3'' ''Travel'']"
proof -
  have h: "2 < length (nodesRef exampleDragged)" "n_type (nodesRef exampleDragged ! 2) = Note"
    by (simp_all add: exampleDragged_nodes exampleState_nodes newNode_def)
  have f: "find (\<lambda>n. n_id n = ''g3'') (nodesRef exampleDragged) = Some (nodesRef exampleDragged ! 5)"
    "n_noteId (nodesRef exampleDragged ! 2) = Some ''n1_leafRef''"
    "n_name (nodesRef exampleDragged ! 5) = ''Travel''"
    by (simp_all add: exampleDragged_nodes exampleState_nodes newNode_def)
  from dragEnd_reparent [OF h, where a = 0 and t = "''g3''" and cb = 1 and
      g = "nodesRef exampleDragged ! 5" and nid = "''n1_leafRef''"]
  show ?thesis using h f exampleDragged_refs by simp
qed

section \<open>Pointer-move: the hover target\<close>

text \<open>
  C2 at a group whose id is \<open>c.1\<close>. The leaf \<open>n1\<close> of another group is picked up and
  moved while it lies at distance 50 from that group, so that the group is the last and
  only candidate and the hover target should become \<open>c.1\<close>. The scan finds the group,
  but the lookup of its circle with the selector \<open>#circle-c.1\<close> throws before the hover
  target is stored: the hover target stays none, and the drop that follows calls nobody,
  though a callback is registered and the leaf has its \<open>noteId\<close>.
\<close>

theorem drag_dotted_id_hover_target_lost:
  "n_type (nodesRef dottedState ! 2) = Note \<and>
   n_noteId (nodesRef dottedState ! 2) = Some ''n1_leafRef'' \<and>
   onReparentRef dottedState = Some 1 \<and>
   lastCandidate (nodesRef (dragStart 0 2 dottedState) ! 2)
     (nodesRef (dragStart 0 2 dottedState)) = Some ''c.1'' \<and>
   findCluster examplePlatform
     ((nodesRef (dragStart 0 2 dottedState) ! 2)\<lparr>n_fx := Some 335, n_fy := Some 445\<rparr>)
     (nodesRef (dragStart 0 2 dottedState)) = Some ''c.1'' \<and>
   isl (drag examplePlatform 2 335 445 (dragStart 0 2 dottedState)) \<and>
   hoverTargetRef (stateAfter (drag examplePlatform 2 335 445 (dragStart 0 2 dottedState)))
     = None \<and>
   invocations (run examplePlatform dottedState [DragStart 0 2, Drag 2 335 445, DragEnd 0 2])
     = []"
proof -
  have ns: "nodesRef (dragStart 0 2 dottedState) =
      (nodesRef dottedState)
        [2 := (nodesRef dottedState ! 2)\<lparr>n_fx := Some 330, n_fy := Some 440\<rparr>]"
    and refs: "hoverTargetRef (dragStart 0 2 dottedState) = None"
      "svg_circles (dragStart 0 2 dottedState) = [''root'', ''g1'', ''n1'', ''c.1'']"
      "onReparentRef (dragStart 0 2 dottedState) = Some 1"
      "invocations (dragStart 0 2 dottedState) = []"
    by (simp_all add: dragStart_def dottedState_nodes dottedState_refs newNode_def Let_def)
  have leaf: "n_type (nodesRef dottedState ! 2) = Note"
    "n_noteId (nodesRef dottedState ! 2) = Some ''n1_leafRef''"
    by (simp_all add: dottedState_nodes newNode_def)
  have cand: "lastCandidate (nodesRef (dragStart 0 2 dottedState) ! 2)
     (nodesRef (dragStart 0 2 dottedState)) = Some ''c.1''"
    by (simp add: ns dottedState_nodes newNode_def lastCandidate_def isCandidate_def
        euclidean_def position_def orZero_def baseThreshold_def power2_eq_square hit_test)
  have found: "findCluster examplePlatform
     ((nodesRef (dragStart 0 2 dottedState) ! 2)\<lparr>n_fx := Some 335, n_fy := Some 445\<rparr>)
     (nodesRef (dragStart 0 2 dottedState)) = Some ''c.1''"
    by (simp add: ns dottedState_nodes newNode_def findCluster_def scanStep_def orZero_def
        examplePlatform_def hit_test Let_def)
  have thrown: "drag examplePlatform 2 335 445 (dragStart 0 2 dottedState) =
      Inl (SyntaxError,
        (dragStart 0 2 dottedState)
          \<lparr>nodesRef := (nodesRef (dragStart 0 2 dottedState))
             [2 := (nodesRef (dragStart 0 2 dottedState) ! 2)
                     \<lparr>n_fx := Some 335, n_fy := Some 445\<rparr>],
           highlighted := None\<rparr>)"
    by (simp add: drag_def ns refs dottedState_nodes newNode_def findCluster_def scanStep_def
        orZero_def truthy_def examplePlatform_def exampleQuery_def hit_test Let_def)
  have hover: "hoverTargetRef (stateAfter (drag examplePlatform 2 335 445
      (dragStart 0 2 dottedState))) = None"
    by (simp add: thrown stateAfter_def refs)
  have calls: "invocations (run examplePlatform dottedState
      [DragStart 0 2, Drag 2 335 445, DragEnd 0 2]) = []"
    by (simp add: run_def thrown stateAfter_def refs dragEnd_def ns dottedState_nodes
        newNode_def Let_def)
  from leaf cand found hover calls show ?thesis
    by (simp add: thrown dottedState_refs)
qed

section \<open>The callback slot\<close>

text \<open>
  C4. Whatever happened before, the drag start included: after the parent has supplied the
  callback \<open>cb\<close> and no other since, the slot holds \<open>cb\<close> at pointer-up, and every
  call the pointer-up makes goes to \<open>cb\<close>.
\<close>

theorem latest_callback_invoked:
  assumes "\<not> list_ex isSetOnReparent evs'"
  shows "onReparentRef (run pf s (evs @ SetOnReparent cb # evs')) = cb \<and>
    (\<exists>calls. invocations (dragEnd a i (run pf s (evs @ SetOnReparent cb # evs'))) =
        invocations (run pf s (evs @ SetOnReparent cb # evs')) @ calls \<and>
      (\<forall>c \<in> set calls. Some (callee c) = cb))"
proof -
  let ?s' = "run pf s (evs @ SetOnReparent cb # evs')"
  have "?s' = run pf (setOnReparent cb (run pf s evs)) evs'"
    by (simp add: run_append run_Cons)
  then have slot: "onReparentRef ?s' = cb"
    using onReparentRef_run [OF assms] by (simp add: setOnReparent_def)
  from dragEnd_calls_any [of a i ?s'] obtain calls where
    "invocations (dragEnd a i ?s') = invocations ?s' @ calls"
    "\<forall>c \<in> set calls. Some (callee c) = onReparentRef ?s'" by blast
  with slot show ?thesis by auto
qed

theorem latest_callback_invoked_witness:
  "\<not> list_ex isSetOnReparent [Drag 2 335 445] \<and>
   onReparentRef (run examplePlatform exampleState [DragStart 0 2]) = Some 1 \<and>
   onReparentRef (run examplePlatform exampleState
     ([DragStart 0 2] @ SetOnReparent (Some 2) # [Drag 2 335 445])) = Some 2 \<and>
   invocations (dragEnd 0 2 (run examplePlatform exampleState
     ([DragStart 0 2] @ SetOnReparent (Some 2) # [Drag 2 335 445]))) =
     [Invocation 2 ''n1_leafRef'' ''g3'' ''Travel'']"
proof -
  let ?s = "run examplePlatform exampleState
    ([DragStart 0 2] @ SetOnReparent (Some 2) # [Drag 2 335 445])"
  have h: "\<not> list_ex isSetOnReparent [Drag 2 335 445]" by simp
  have b: "onReparentRef (run examplePlatform exampleState [DragStart 0 2]) = Some 1"
    by (simp add: exampleState_nodes exampleState_refs drag_defs)
  have e: "invocations (dragEnd 0 2 ?s) = [Invocation 2 ''n1_leafRef'' ''g3'' ''Travel'']"
    by (simp add: exampleState_nodes exampleState_refs drag_defs newNode_def)
  from latest_callback_invoked [OF h, where pf = examplePlatform and s = exampleState
      and evs = "[DragStart 0 2]" and cb = "Some 2" and a = 0 and i = 2]
  have "onReparentRef ?s = Some 2" by blast
  with h b e show ?thesis by simp
qed

section \<open>Rebuilding the graph data\<close>

text \<open>
  C3. Rebuilding a second time from the same tree, the generation of the first rebuild not
  touched in between, changes nothing. In general every node of the new generation takes
  \<open>x\<close>, \<open>y\<close>, \<open>vx\<close>, \<open>vy\<close> from the node of the prior generation written last with
  its id, and is unseeded when there is none; so, when the ids of the prior generation are
  unique, every prior node that survives keeps these four fields.
\<close>

theorem rebuild_continuity:
  "updateGraphData clusters (updateGraphData clusters s) = updateGraphData clusters s \<and>
   (\<forall>n \<in> set (nodesRef (updateGraphData clusters s)).
      case lastWithId (n_id n) (nodesRef s) of
        Some old \<Rightarrow> n_x n = n_x old \<and> n_y n = n_y old \<and> n_vx n = n_vx old \<and> n_vy n = n_vy old
      | None \<Rightarrow> unseeded n) \<and>
   (distinct (map n_id (nodesRef s)) \<longrightarrow>
      (\<forall>old \<in> set (nodesRef s). \<forall>n \<in> set (nodesRef (updateGraphData clusters s)).
         n_id n = n_id old \<longrightarrow>
         n_x n = n_x old \<and> n_y n = n_y old \<and> n_vx n = n_vx old \<and> n_vy n = n_vy old))"
proof -
  have idem: "updateGraphData clusters (updateGraphData clusters s) = updateGraphData clusters s"
    by (simp add: updateGraphData_def mergedNodes_idem)
  have copied: "case lastWithId (n_id n) (nodesRef s) of
        Some old \<Rightarrow> n_x n = n_x old \<and> n_y n = n_y old \<and> n_vx n = n_vx old \<and> n_vy n = n_vy old
      | None \<Rightarrow> unseeded n"
    if "n \<in> set (nodesRef (updateGraphData clusters s))" for n
  proof -
    from that have "n \<in> set (mergedNodes clusters (nodesRef s))"
      by (simp add: updateGraphData_def)
    then show ?thesis by (rule merged_copied)
  qed
  have kept: "n_x n = n_x old \<and> n_y n = n_y old \<and> n_vx n = n_vx old \<and> n_vy n = n_vy old"
    if "distinct (map n_id (nodesRef s))" "old \<in> set (nodesRef s)"
      "n \<in> set (nodesRef (updateGraphData clusters s))" "n_id n = n_id old" for old n
    using copied [OF that(3)] lastWithId_distinct [OF that(1) that(2)] that(4) by simp
  from idem copied kept show ?thesis by blast
qed

theorem rebuild_continuity_witness:
  "distinct (map n_id (nodesRef exampleDragged)) \<and>
   nodesRef exampleDragged ! 2 \<in> set (nodesRef exampleDragged) \<and>
   nodesRef (updateGraphData exampleTree exampleDragged) ! 2
     \<in> set (nodesRef (updateGraphData exampleTree exampleDragged)) \<and>
   n_id (nodesRef (updateGraphData exampleTree exampleDragged) ! 2) =
     n_id (nodesRef exampleDragged ! 2) \<and>
   n_x (nodesRef (updateGraphData exampleTree exampleDragged) ! 2) = Some 330 \<and>
   n_y (nodesRef (updateGraphData exampleTree exampleDragged) ! 2) = Some 440 \<and>
   n_vx (nodesRef (updateGraphData exampleTree exampleDragged) ! 2) = Some 1 \<and>
   n_vy (nodesRef (updateGraphData exampleTree exampleDragged) ! 2) = Some 2 \<and>
   updateGraphData exampleTree (updateGraphData exampleTree exampleDragged) =
     updateGraphData exampleTree exampleDragged"
proof -
  let ?new = "nodesRef (updateGraphData exampleTree exampleDragged)"
  have d: "distinct (map n_id (nodesRef exampleDragged))"
    by (simp add: exampleDragged_nodes exampleState_nodes newNode_def)
  have o: "nodesRef exampleDragged ! 2 \<in> set (nodesRef exampleDragged)"
    by (simp add: exampleDragged_nodes exampleState_nodes)
  have n: "?new ! 2 \<in> set ?new"
    by (simp add: exampleTree_rebuilt exampleState_nodes)
  have i: "n_id (?new ! 2) = n_id (nodesRef exampleDragged ! 2)"
    by (simp add: exampleTree_rebuilt exampleDragged_nodes exampleState_nodes newNode_def)
  have v: "n_x (nodesRef exampleDragged ! 2) = Some 330" "n_y (nodesRef exampleDragged ! 2) = Some 440"
    "n_vx (nodesRef exampleDragged ! 2) = Some 1" "n_vy (nodesRef exampleDragged ! 2) = Some 2"
    by (simp_all add: exampleDragged_nodes exampleState_nodes newNode_def)
  from rebuild_continuity [of exampleTree exampleDragged] d o n i
  have "n_x (?new ! 2) = n_x (nodesRef exampleDragged ! 2) \<and>
     n_y (?new ! 2) = n_y (nodesRef exampleDragged ! 2) \<and>
     n_vx (?new ! 2) = n_vx (nodesRef exampleDragged ! 2) \<and>
     n_vy (?new ! 2) = n_vy (nodesRef exampleDragged ! 2) \<and>
     updateGraphData exampleTree (updateGraphData exampleTree exampleDragged) =
       updateGraphData exampleTree exampleDragged"
    by blast
  with d o n i v show ?thesis by simp
qed

section \<open>Duplicate ids\<close>

text \<open>
  C9. \<open>updateGraphData\<close> has no failing branch: for every tree, duplicate ids included,
  it returns a generation with as many nodes as the tree emits. The lookup used by the
  merge maps every id to the node written last with that id, for any prior generation and
  so for a generation rebuilt from a tree with duplicate ids.
\<close>

theorem existingNodesMap_last_write_wins:
  "existingNodesMap prev k = lastWithId k prev \<and>
   length (nodesRef (updateGraphData clusters s)) = length (newNodes clusters) \<and>
   existingNodesMap (nodesRef (updateGraphData clusters s)) k =
     lastWithId k (nodesRef (updateGraphData clusters s))"
  by (simp add: existingNodesMap_lastWithId updateGraphData_def mergedNodes_def)

theorem existingNodesMap_last_write_wins_witness:
  "filter (\<lambda>d. n_id d = ''n1'') (nodesRef (updateGraphData twiceTree (initialState None))) =
     [newNode ''n1'' ''First note'' Note (Some ''n1_leafRef'') 12 (Some ''g1''),
      newNode ''n1'' ''First note'' Note (Some ''n1_leafRef'') 12 (Some ''g2'')] \<and>
   existingNodesMap (nodesRef (updateGraphData twiceTree (initialState None))) ''n1'' =
     Some (newNode ''n1'' ''First note'' Note (Some ''n1_leafRef'') 12 (Some ''g2'')) \<and>
   length (nodesRef (updateGraphData twiceTree (initialState None))) = 5"
proof -
  have f: "filter (\<lambda>d. n_id d = ''n1'') (nodesRef (updateGraphData twiceTree (initialState None))) =
     [newNode ''n1'' ''First note'' Note (Some ''n1_leafRef'') 12 (Some ''g1''),
      newNode ''n1'' ''First note'' Note (Some ''n1_leafRef'') 12 (Some ''g2'')]"
    by (simp add: twiceTree_nodes initialState_def existingNodesMap_def mergeNode_def newNode_def)
  have l: "length (newNodes twiceTree) = 5"
    by (simp add: newNodes_def clusterNodes_def childrenOf_def twiceTree_def)
  from existingNodesMap_last_write_wins [of _ _ twiceTree "initialState None", where k = "''n1''"] f l
  show ?thesis by (simp add: lastWithId_def)
qed

text \<open>
  C10. Every node of a rebuilt generation has neither \<open>fx\<close> nor \<open>fy\<close>, and differs from
  the node the tree emits in \<open>x\<close>, \<open>y\<close>, \<open>vx\<close>, \<open>vy\<close> at most.
\<close>

theorem rebuild_unpinned:
  "(\<forall>n \<in> set (nodesRef (updateGraphData clusters s)). n_fx n = None \<and> n_fy n = None) \<and>
   (\<forall>k < length (newNodes clusters).
      nodesRef (updateGraphData clusters s) ! k =
        (newNodes clusters ! k)
          \<lparr>n_x := n_x (nodesRef (updateGraphData clusters s) ! k),
           n_y := n_y (nodesRef (updateGraphData clusters s) ! k),
           n_vx := n_vx (nodesRef (updateGraphData clusters s) ! k),
           n_vy := n_vy (nodesRef (updateGraphData clusters s) ! k)\<rparr>)"
proof (intro conjI ballI allI impI)
  fix n assume "n \<in> set (nodesRef (updateGraphData clusters s))"
  then obtain d where "d \<in> set (newNodes clusters)"
    "n = mergeNode (existingNodesMap (nodesRef s)) d"
    by (auto simp: updateGraphData_def mergedNodes_def)
  with newNodes_fresh [of d clusters] show "n_fx n = None" "n_fy n = None" by simp_all
next
  fix k assume "k < length (newNodes clusters)"
  then have "nodesRef (updateGraphData clusters s) ! k =
      mergeNode (existingNodesMap (nodesRef s)) (newNodes clusters ! k)"
    by (simp add: updateGraphData_def mergedNodes_def)
  then show "nodesRef (updateGraphData clusters s) ! k =
        (newNodes clusters ! k)
          \<lparr>n_x := n_x (nodesRef (updateGraphData clusters s) ! k),
           n_y := n_y (nodesRef (updateGraphData clusters s) ! k),
           n_vx := n_vx (nodesRef (updateGraphData clusters s) ! k),
           n_vy := n_vy (nodesRef (updateGraphData clusters s) ! k)\<rparr>"
    using mergeNode_fields [of "existingNodesMap (nodesRef s)" "newNodes clusters ! k"] by simp
qed

theorem rebuild_unpinned_witness:
  "n_fx (nodesRef exampleDragged ! 2) = Some 335 \<and> n_fy (nodesRef exampleDragged ! 2) = Some 445 \<and>
   nodesRef (updateGraphData exampleTree exampleDragged) ! 2
     \<in> set (nodesRef (updateGraphData exampleTree exampleDragged)) \<and>
   n_id (nodesRef (updateGraphData exampleTree exampleDragged) ! 2) =
     n_id (nodesRef exampleDragged ! 2) \<and>
   n_x (nodesRef (updateGraphData exampleTree exampleDragged) ! 2) = Some 330 \<and>
   n_fx (nodesRef (updateGraphData exampleTree exampleDragged) ! 2) = None \<and>
   n_fy (nodesRef (updateGraphData exampleTree exampleDragged) ! 2) = None"
proof -
  let ?new = "nodesRef (updateGraphData exampleTree exampleDragged)"
  have p: "n_fx (nodesRef exampleDragged ! 2) = Some 335" "n_fy (nodesRef exampleDragged ! 2) = Some 445"
    by (simp_all add: exampleDragged_nodes exampleState_nodes)
  have n: "?new ! 2 \<in> set ?new"
    by (simp add: exampleTree_rebuilt exampleState_nodes)
  have i: "n_id (?new ! 2) = n_id (nodesRef exampleDragged ! 2)" "n_x (?new ! 2) = Some 330"
    by (simp_all add: exampleTree_rebuilt exampleDragged_nodes exampleState_nodes newNode_def)
  from rebuild_unpinned [of exampleTree exampleDragged] n
  have "n_fx (?new ! 2) = None \<and> n_fy (?new ! 2) = None" by blast
  with p n i show ?thesis by simp
qed

section \<open>Root node, empty tree, viewport\<close>

text \<open>
  C6. A rebuild yields exactly one node of kind root, and a node of kind root carries no
  \<open>noteId\<close>; so does the effect on every non-empty tree.
\<close>

theorem rebuild_one_root:
  "length (filter (\<lambda>n. n_type n = Root) (nodesRef (updateGraphData clusters s))) = 1 \<and>
   (\<forall>n \<in> set (nodesRef (updateGraphData clusters s)). n_type n = Root \<longrightarrow> n_noteId n = None) \<and>
   (clusters \<noteq> [] \<longrightarrow>
      length (filter (\<lambda>n. n_type n = Root)
        (nodesRef (graphEffect clusters True (Some (w, h)) s))) = 1 \<and>
      (\<forall>n \<in> set (nodesRef (graphEffect clusters True (Some (w, h)) s)).
         n_type n = Root \<longrightarrow> n_noteId n = None))"
  by (auto simp: graphEffect_runs updateGraphData_def filter_Root_merged Root_merged_noteId)

theorem rebuild_one_root_witness:
  "exampleTree \<noteq> [] \<and>
   filter (\<lambda>n. n_type n = Root)
     (nodesRef (graphEffect exampleTree True (Some (800, 600)) (initialState None))) = [rootNode] \<and>
   length (filter (\<lambda>n. n_type n = Root)
     (nodesRef (graphEffect exampleTree True (Some (800, 600)) (initialState None)))) = 1 \<and>
   n_noteId rootNode = None"
proof -
  let ?ns = "nodesRef (graphEffect exampleTree True (Some (800, 600)) (initialState None))"
  have h: "exampleTree \<noteq> []" by (simp add: exampleTree_def)
  have f: "filter (\<lambda>n. n_type n = Root) ?ns = [rootNode]"
    by (simp add: tree_defs effect_defs newNode_def)
  then have m: "rootNode \<in> set ?ns" "n_type rootNode = Root"
    by (simp_all add: tree_defs effect_defs newNode_def)
  from rebuild_one_root [of exampleTree "initialState None" 800 600] h m
  have "length (filter (\<lambda>n. n_type n = Root) ?ns) = 1 \<and> n_noteId rootNode = None"
    by blast
  with h f show ?thesis by simp
qed

text \<open>
  C7. For the empty tree \<open>updateGraphData\<close> yields one node, the root, and no links; the
  effect returns at once and leaves the state as it is: no simulation, nothing drawn.
\<close>

theorem empty_tree:
  "(\<exists>r. nodesRef (updateGraphData [] s) = [r] \<and> n_type r = Root \<and> n_id r = rootId) \<and>
   linksRef (updateGraphData [] s) = [] \<and>
   graphEffect [] svgRef containerRef s = s"
  by (simp add: updateGraphData_def mergedNodes_def newNodes_def newLinks_def graphEffect_empty
      rootNode_def newNode_def)

theorem empty_tree_witness:
  "nodesRef (updateGraphData [] (initialState None)) = [rootNode] \<and>
   linksRef (updateGraphData [] (initialState None)) = [] \<and>
   simulationRef (graphEffect [] True (Some (800, 600)) (initialState None)) = None \<and>
   svg_circles (graphEffect [] True (Some (800, 600)) (initialState None)) = [] \<and>
   nodesRef (graphEffect [] True (Some (800, 600)) (initialState None)) = []"
proof -
  have "nodesRef (updateGraphData [] (initialState None)) = [rootNode]"
    by (simp add: tree_defs initialState_def)
  with empty_tree [of "initialState None" True "Some (800, 600)"] show ?thesis
    by (simp add: initialState_def)
qed

text \<open>
  The effect on a viewport of width 0 and height 0: the simulation is created, six circles
  and five lines are drawn.
\<close>

theorem zero_viewport_counterexample:
  "simulationRef (graphEffect exampleTree True (Some (0, 0)) (initialState None)) =
     Some (forceSimulation 0 0) \<and>
   svg_circles (graphEffect exampleTree True (Some (0, 0)) (initialState None)) =
     [''root'', ''g1'', ''n1'', ''n2'', ''g2'', ''g3''] \<and>
   svg_lines (graphEffect exampleTree True (Some (0, 0)) (initialState None)) = 5"
  by (simp add: tree_defs effect_defs newNode_def)

text \<open>
  C8, as the effect has it. A viewport of zero area does not stop the effect: for a
  non-empty tree and mounted elements the graph data is rebuilt, the simulation is created
  and nodes and links are drawn as for any viewport, the centering force at
  (width / 2, height / 2); the only divisions are these two, by the constant 2.
\<close>

theorem zero_viewport_start:
  assumes "clusters \<noteq> []" and "w = 0 \<or> h = 0"
  shows "simulationRef (graphEffect clusters True (Some (w, h)) s) =
       Some (forceSimulation (real w) (real h)) \<and>
     center_x (forceSimulation (real w) (real h)) = real w / 2 \<and>
     center_y (forceSimulation (real w) (real h)) = real h / 2 \<and>
     nodesRef (graphEffect clusters True (Some (w, h)) s) = mergedNodes clusters (nodesRef s) \<and>
     svg_circles (graphEffect clusters True (Some (w, h)) s) =
       map n_id (mergedNodes clusters (nodesRef s)) \<and>
     svg_circles (graphEffect clusters True (Some (w, h)) s) \<noteq> [] \<and>
     svg_lines (graphEffect clusters True (Some (w, h)) s) = length (newLinks clusters)"
  using assms(1)
  by (simp add: graphEffect_runs updateGraphData_def forceSimulation_def mergedNodes_def
      newNodes_def)

theorem zero_viewport_start_witness:
  "exampleTree \<noteq> [] \<and> ((0::nat) = 0 \<or> (600::nat) = 0) \<and>
   simulationRef (graphEffect exampleTree True (Some (0, 600)) (initialState None)) =
     Some (forceSimulation 0 600) \<and>
   center_x (forceSimulation 0 600) = 0 \<and> center_y (forceSimulation 0 600) = 300 \<and>
   svg_circles (graphEffect exampleTree True (Some (0, 600)) (initialState None)) \<noteq> []"
proof -
  have h: "exampleTree \<noteq> []" "(0::nat) = 0 \<or> (600::nat) = 0"
    by (simp_all add: exampleTree_def)
  from zero_viewport_start [OF h, of "initialState None"]
  have s: "simulationRef (graphEffect exampleTree True (Some (0, 600)) (initialState None)) =
      Some (forceSimulation (real 0) (real 600))"
    and c: "center_x (forceSimulation (real 0) (real 600)) = real 0 / 2"
      "center_y (forceSimulation (real 0) (real 600)) = real 600 / 2"
    and d: "svg_circles (graphEffect exampleTree True (Some (0, 600)) (initialState None)) \<noteq> []"
    by blast+
  from s c d h show ?thesis by simp
qed

section \<open>The force configuration\<close>

text \<open>
  C5. The simulation that the effect creates has link distance 120 on every link whose
  source is the root node and 60 on every link whose source is a group, charge strength
  -400 whatever the node, collision radius 1.5 times the node radius with 2 iterations,
  and centering strength 0.1.
\<close>

theorem simulation_configuration:
  assumes "clusters \<noteq> []"
  shows "\<exists>sim. simulationRef (graphEffect clusters True (Some (w, h)) s) = Some sim \<and>
     (\<forall>l src. l_source l = Resolved src \<and> n_type src = Root \<longrightarrow> link_distance sim l = 120) \<and>
     (\<forall>l src. l_source l = Resolved src \<and> n_type src = Cluster \<longrightarrow> link_distance sim l = 60) \<and>
     charge_strength sim = - 400 \<and>
     (\<forall>d. collide_radius sim d = n_r d * 1.5) \<and>
     collide_iterations sim = 2 \<and>
     center_strength sim = 0.1"
  using assms
  by (auto simp: graphEffect_runs forceSimulation_def linkDistance_def collideRadius_def)

theorem simulation_configuration_witness:
  "exampleTree \<noteq> [] \<and>
   (\<exists>sim. simulationRef (graphEffect exampleTree True (Some (800, 600)) (initialState None))
        = Some sim \<and>
      link_distance sim \<lparr>l_source = Resolved rootNode,
          l_target = Resolved (newNode ''g1'' ''AI'' Cluster None 25 None)\<rparr> = 120 \<and>
      link_distance sim \<lparr>l_source = Resolved (newNode ''g1'' ''AI'' Cluster None 25 None),
          l_target = ById ''n1''\<rparr> = 60 \<and>
      charge_strength sim = - 400 \<and> collide_radius sim rootNode = 52.5 \<and>
      collide_iterations sim = 2 \<and> center_strength sim = 0.1)"
proof -
  have h: "exampleTree \<noteq> []" by (simp add: exampleTree_def)
  from simulation_configuration [OF h, of 800 600 "initialState None"]
  obtain sim where sim:
    "simulationRef (graphEffect exampleTree True (Some (800, 600)) (initialState None)) = Some sim"
    "\<forall>l src. l_source l = Resolved src \<and> n_type src = Root \<longrightarrow> link_distance sim l = 120"
    "\<forall>l src. l_source l = Resolved src \<and> n_type src = Cluster \<longrightarrow> link_distance sim l = 60"
    "charge_strength sim = - 400" "\<forall>d. collide_radius sim d = n_r d * 1.5"
    "collide_iterations sim = 2" "center_strength sim = 0.1"
    by blast
  have "link_distance sim \<lparr>l_source = Resolved rootNode,
          l_target = Resolved (newNode ''g1'' ''AI'' Cluster None 25 None)\<rparr> = 120"
    using sim(2) by (simp add: rootNode_def newNode_def)
  moreover have "link_distance sim \<lparr>l_source = Resolved (newNode ''g1'' ''AI'' Cluster None 25 None),
          l_target = ById ''n1''\<rparr> = 60"
    using sim(3) by (simp add: newNode_def)
  moreover have "collide_radius sim rootNode = 52.5"
    using sim(5) by (simp add: rootNode_def newNode_def)
  ultimately show ?thesis using h sim(1,4,6,7) by simp
qed

end
